theory Spec2Isabelle
  imports Complex_Main
begin

section \<open>JavaScript values read by the error interceptor\<close>

text \<open>
  The body of a failed response (\<^verbatim>\<open>error.response.data\<close>) is whatever the HTTP client
  parsed from the wire: a JSON value, or \<^verbatim>\<open>undefined\<close>. Numbers are the parsed values; every
  finite double is a rational, and only the test against zero is ever made on them here.
  An object is the list of its own properties, each key once.
\<close>

datatype jsval =
    JUndefined
  | JNull
  | JBool bool
  | JNum rat
  | JStr string
  | JArr "jsval list"
  | JObj "(string \<times> jsval) list"

text \<open>JavaScript's ToBoolean: what \<^verbatim>\<open>||\<close>, \<^verbatim>\<open>!\<close> and \<^verbatim>\<open>if\<close> test.\<close>

fun truthy :: "jsval \<Rightarrow> bool" where
  "truthy JUndefined = False"
| "truthy JNull = False"
| "truthy (JBool b) = b"
| "truthy (JNum r) = (r \<noteq> 0)"
| "truthy (JStr s) = (s \<noteq> [])"
| "truthy (JArr xs) = True"
| "truthy (JObj kvs) = True"

text \<open>\<^verbatim>\<open>a || b\<close>: the left operand when it is truthy, the right one otherwise.\<close>

definition js_or :: "jsval \<Rightarrow> jsval \<Rightarrow> jsval" where
  "js_or a b = (if truthy a then a else b)"

text \<open>
  \<^verbatim>\<open>x?.p\<close> for the two property names the interceptor reads (\<^verbatim>\<open>error\<close> and
  \<^verbatim>\<open>message\<close>): \<^verbatim>\<open>undefined\<close> on \<^verbatim>\<open>null\<close> and \<^verbatim>\<open>undefined\<close> (the short circuit), the
  own property of an object when it has one, and \<^verbatim>\<open>undefined\<close> on everything else, since
  no prototype of a parsed JSON value defines either name.
\<close>

fun opt_chain :: "jsval \<Rightarrow> string \<Rightarrow> jsval" where
  "opt_chain (JObj kvs) p = (case map_of kvs p of None \<Rightarrow> JUndefined | Some v \<Rightarrow> v)"
| "opt_chain x p = JUndefined"

text \<open>A property that holds a string or is \<^verbatim>\<open>undefined\<close>, as a JavaScript value.\<close>

fun of_string_option :: "string option \<Rightarrow> jsval" where
  "of_string_option None = JUndefined"
| "of_string_option (Some s) = JStr s"

section \<open>Errors\<close>

text \<open>
  The error codes of the protocol SDK's \<^verbatim>\<open>ErrorCode\<close> enumeration. This file uses two of
  them.
\<close>

datatype ErrorCode =
    ConnectionClosed
  | RequestTimeout
  | ParseError
  | InvalidRequest
  | MethodNotFound
  | InvalidParams
  | InternalError

datatype console_line =
    ConsoleLog "jsval list"
  | ConsoleError "jsval list"

section \<open>The HTTP client\<close>

record AxiosResponse =
  status :: int
  data :: jsval

datatype ClientRequest = ClientRequest

text \<open>
  The failure handed to the response interceptor, as the four properties the handler
  reads from it.
\<close>

record AxiosError =
  code :: "string option"
  message :: string
  request :: "ClientRequest option"
  response :: "AxiosResponse option"

text \<open>
  What a \<^verbatim>\<open>throw\<close> can carry: \<open>McpError c m\<close> is the object built by
  \<^verbatim>\<open>new McpError(c, m)\<close>, \<open>Error m\<close> the one built by \<^verbatim>\<open>new Error(m)\<close>,
  \<open>AxiosFailure e\<close> the transport's own error object, and \<open>Thrown v\<close> any other value.
\<close>

datatype thrown =
    McpError ErrorCode jsval
  | Error string
  | AxiosFailure AxiosError
  | Thrown jsval

text \<open>The framework kind an error carries: the code of an \<^verbatim>\<open>McpError\<close>, none otherwise.\<close>

fun kind_of :: "thrown \<Rightarrow> ErrorCode option" where
  "kind_of (McpError c m) = Some c"
| "kind_of (Error m) = None"
| "kind_of (AxiosFailure e) = None"
| "kind_of (Thrown v) = None"

record Agent =
  rejectUnauthorized :: bool

record AxiosRequestConfig =
  url :: "string option"
  baseURL :: "string option"
  headers :: "string \<rightharpoonup> string"
  timeout :: "nat option"
  httpsAgent :: "Agent option"

type_synonym request_hook = "AxiosRequestConfig \<Rightarrow> console_line list \<times> AxiosRequestConfig"

type_synonym response_hook =
  "(AxiosResponse \<Rightarrow> AxiosResponse) \<times>
   (AxiosError \<Rightarrow> console_line list \<times> (thrown + AxiosResponse))"

record AxiosInstance =
  defaults :: AxiosRequestConfig
  request_interceptors :: "request_hook list"
  response_interceptors :: "response_hook list"

section \<open>The response interceptor\<close>

text \<open>\<^verbatim>\<open>response => response\<close>\<close>

definition response_onFulfilled :: "AxiosResponse \<Rightarrow> AxiosResponse" where
  "response_onFulfilled r = r"

text \<open>\<^verbatim>\<open>error.response.data?.error?.message\<close>\<close>

definition data_error_message :: "AxiosResponse \<Rightarrow> jsval" where
  "data_error_message r = opt_chain (opt_chain (data r) ''error'') ''message''"

text \<open>
  The switch on \<^verbatim>\<open>error.response.status\<close>, case by case in the source's order. Every
  branch throws.
\<close>

definition map_status :: "AxiosResponse \<Rightarrow> thrown" where
  "map_status r =
     (if status r = 400 then
        McpError InvalidRequest (js_or (data_error_message r) (JStr ''Invalid request parameters''))
      else if status r = 401 then
        McpError InvalidRequest (JStr ''Unauthorized: Invalid or missing API key'')
      else if status r = 403 then
        McpError InvalidRequest
          (JStr ''Forbidden: Insufficient permissions or feature unavailable'')
      else if status r = 404 then
        McpError InvalidRequest (JStr ''Resource not found'')
      else if status r = 422 then
        McpError InvalidRequest (js_or (data_error_message r) (JStr ''Invalid request parameters''))
      else if status r = 429 then
        McpError InvalidRequest (JStr ''Rate limit exceeded'')
      else
        McpError InternalError (js_or (data_error_message r) (JStr ''Internal server error'')))"

text \<open>
  The rejection handler: one line on the console, then the translation. The result is
  the console output and what the handler does: \<open>Inl\<close> a thrown error, \<open>Inr\<close> a value
  returned normally.
\<close>

definition response_onRejected ::
  "AxiosError \<Rightarrow> console_line list \<times> (thrown + AxiosResponse)" where
  "response_onRejected err =
     ([ConsoleError [JStr ''Axios error:'', of_string_option (code err), JStr (message err)]],
      (case response err of
         Some r \<Rightarrow> Inl (map_status r)
       | None \<Rightarrow>
           (case request err of
              Some q \<Rightarrow> Inl (McpError InternalError (JStr ''No response received from Postman API''))
            | None \<Rightarrow>
                Inl (McpError InternalError (JStr (''Error making request: '' @ message err))))))"

section \<open>Construction\<close>

record PostmanToolOptions =
  baseURL :: "string option"
  acceptHeader :: "string option"

text \<open>
  Modelled from the spec: the \<^verbatim>\<open>ToolDefinition\<close> type is declared in another module of the
  repository; the spec gives it a name (a string) and metadata of a shape defined elsewhere.
  Only the name is read here.
\<close>

record 'm ToolDefinition =
  name :: string
  metadata :: 'm

text \<open>
  The eventual state of a promise. A promise that a hook of a derived class returns may
  never settle.
\<close>

datatype 'a Promise =
    Fulfilled 'a
  | Rejected thrown
  | Pending

text \<open>
  An instance: its client, a reference into the store of HTTP clients, and the three
  methods a derived class overrides, as the instance dispatches them. A call is \<open>Inl\<close> an
  error thrown synchronously or \<open>Inr\<close> the value returned; the \<^verbatim>\<open>ToolResource\<close> type
  (declared in another module) is the parameter \<open>'r\<close>.
\<close>

record ('m, 'r) BasePostmanTool =
  client :: nat
  getToolDefinitions :: "thrown + 'm ToolDefinition list"
  listToolResources :: "thrown + 'r list Promise"
  getToolResourceDetails :: "string \<Rightarrow> thrown + 'r Promise"

text \<open>The bodies of the three methods in the base class.\<close>

definition base_getToolDefinitions :: "thrown + 'm ToolDefinition list" where
  "base_getToolDefinitions =
     Inl (Error ''getToolDefinitions() must be implemented by derived class'')"

definition base_listToolResources :: "thrown + 'r list Promise" where
  "base_listToolResources = Inr (Fulfilled [])"

definition base_getToolResourceDetails :: "string \<Rightarrow> thrown + 'r Promise" where
  "base_getToolResourceDetails resourceUri =
     Inr (Rejected (McpError InvalidRequest
       (JStr (''Resource '' @ resourceUri @ '' cannot be handled by this tool''))))"

text \<open>
  The HTTP library, as far as the constructor uses it. \<^verbatim>\<open>axios.create(config)\<close> makes a
  new client with that configuration and no interceptor; \<^verbatim>\<open>interceptors.request.use\<close> and
  \<^verbatim>\<open>interceptors.response.use\<close> add a handler after those already registered on the
  client. Clients live in a store, since a client passed to the constructor is shared with
  its other holders.
\<close>

definition axios_create :: "AxiosRequestConfig \<Rightarrow> AxiosInstance list \<Rightarrow> nat \<times> AxiosInstance list" where
  "axios_create config store =
     (length store,
      store @ [\<lparr>defaults = config, request_interceptors = [], response_interceptors = []\<rparr>])"

definition request_use :: "nat \<Rightarrow> request_hook \<Rightarrow> AxiosInstance list \<Rightarrow> AxiosInstance list" where
  "request_use c h store =
     store[c := (store ! c)\<lparr>request_interceptors := request_interceptors (store ! c) @ [h]\<rparr>]"

definition response_use :: "nat \<Rightarrow> response_hook \<Rightarrow> AxiosInstance list \<Rightarrow> AxiosInstance list" where
  "response_use c h store =
     store[c := (store ! c)\<lparr>response_interceptors := response_interceptors (store ! c) @ [h]\<rparr>]"

text \<open>
  The library runs the request handlers of a client on the configuration of an outgoing
  request, the handler registered last first.
\<close>

fun run_request_hooks ::
  "request_hook list \<Rightarrow> AxiosRequestConfig \<Rightarrow> console_line list \<times> AxiosRequestConfig" where
  "run_request_hooks [] config = ([], config)"
| "run_request_hooks (h # hs) config =
     (case run_request_hooks hs config of
        (out1, config1) \<Rightarrow> (case h config1 of (out2, config2) \<Rightarrow> (out1 @ out2, config2)))"

text \<open>The two request handlers the constructor registers.\<close>

definition request_logging :: request_hook where
  "request_logging config =
     ([ConsoleLog [JStr ''Making request to:'', of_string_option (url config)]], config)"

definition request_accept :: "string \<Rightarrow> request_hook" where
  "request_accept a config = ([], config\<lparr>headers := (headers config)(''Accept'' \<mapsto> a)\<rparr>)"

text \<open>The object literal passed to \<^verbatim>\<open>axios.create\<close>.\<close>

definition new_client_config :: "string \<Rightarrow> string \<Rightarrow> AxiosRequestConfig" where
  "new_client_config apiKey base =
     \<lparr>url = None,
      AxiosRequestConfig.baseURL = Some base,
      headers = [''X-Api-Key'' \<mapsto> apiKey, ''Content-Type'' \<mapsto> ''application/json''],
      timeout = Some 30000,
      httpsAgent = Some \<lparr>rejectUnauthorized = False\<rparr>\<rparr>"

text \<open>\<^verbatim>\<open>options.baseURL || 'https://api.getpostman.com'\<close>\<close>

definition resolve_baseURL :: "PostmanToolOptions \<Rightarrow> string" where
  "resolve_baseURL options =
     (case PostmanToolOptions.baseURL options of
        Some u \<Rightarrow> if truthy (JStr u) then u else ''https://api.getpostman.com''
      | None \<Rightarrow> ''https://api.getpostman.com'')"

text \<open>
  Lines 31 to 50: which client the instance gets. The result is the store afterwards and
  either the error thrown or the reference of the client.
\<close>

definition provision_client ::
  "AxiosInstance list \<Rightarrow> string option \<Rightarrow> PostmanToolOptions \<Rightarrow> nat option \<Rightarrow>
   AxiosInstance list \<times> (thrown + nat)" where
  "provision_client store apiKey options existingClient =
     (case existingClient of
        Some c \<Rightarrow> (store, Inr c)
      | None \<Rightarrow>
          (case apiKey of
             None \<Rightarrow>
               (store, Inl (Error ''API key is required when not providing an existing client''))
           | Some k \<Rightarrow>
               if \<not> truthy (JStr k) then
                 (store, Inl (Error ''API key is required when not providing an existing client''))
               else
                 (case axios_create (new_client_config k (resolve_baseURL options)) store of
                    (c, store') \<Rightarrow> (store', Inr c))))"

text \<open>Lines 52 to 122: the handlers registered on the instance's client.\<close>

definition register_hooks :: "PostmanToolOptions \<Rightarrow> nat \<Rightarrow> AxiosInstance list \<Rightarrow> AxiosInstance list" where
  "register_hooks options c store =
     (let store1 = request_use c request_logging store;
          store2 = (case acceptHeader options of
                      Some a \<Rightarrow> if truthy (JStr a) then request_use c (request_accept a) store1
                                else store1
                    | None \<Rightarrow> store1)
      in response_use c (response_onFulfilled, response_onRejected) store2)"

text \<open>
  \<^verbatim>\<open>new BasePostmanTool(apiKey, options, existingClient)\<close>: the store afterwards, and the
  error thrown or the instance, with the methods of the base class.
\<close>

definition new_BasePostmanTool ::
  "AxiosInstance list \<Rightarrow> string option \<Rightarrow> PostmanToolOptions \<Rightarrow> nat option \<Rightarrow>
   AxiosInstance list \<times> (thrown + ('m, 'r) BasePostmanTool)" where
  "new_BasePostmanTool store apiKey options existingClient =
     (case provision_client store apiKey options existingClient of
        (store', Inl e) \<Rightarrow> (store', Inl e)
      | (store', Inr c) \<Rightarrow>
          (register_hooks options c store',
           Inr \<lparr>client = c,
                getToolDefinitions = base_getToolDefinitions,
                listToolResources = base_listToolResources,
                getToolResourceDetails = base_getToolResourceDetails\<rparr>))"

section \<open>Tool and resource discovery\<close>

text \<open>
  The object \<^verbatim>\<open>getToolMappings\<close> builds, of type \<^verbatim>\<open>ToolMapping\<close>: its own properties, and
  its prototype, \<open>None\<close> while that is \<^verbatim>\<open>Object.prototype\<close>, which the literal \<^verbatim>\<open>{}\<close> gives
  it.
\<close>

record 'v ToolMapping =
  own_properties :: "string \<rightharpoonup> 'v"
  prototype :: "'v option"

text \<open>
  The assignment \<^verbatim>\<open>mappings[k] = v\<close> of an object \<open>v\<close>. The name \<^verbatim>\<open>__proto__\<close> is the
  accessor that every object inherits from \<^verbatim>\<open>Object.prototype\<close>: assigning to it calls the
  setter, which makes \<open>v\<close> the prototype of \<^verbatim>\<open>mappings\<close> and creates no property. Under any
  other name the assignment creates an own property or overwrites the one there;
  \<^verbatim>\<open>Object.prototype\<close> has no other accessor and no read-only property, and neither has an
  instance whose classes declare fields and methods, as the base class does.
\<close>

definition set_property :: "string \<Rightarrow> 'v \<Rightarrow> 'v ToolMapping \<Rightarrow> 'v ToolMapping" where
  "set_property k v mappings =
     (if k = ''__proto__'' then mappings\<lparr>prototype := Some v\<rparr>
      else mappings\<lparr>own_properties := (own_properties mappings)(k \<mapsto> v)\<rparr>)"

text \<open>
  \<^verbatim>\<open>getToolMappings\<close>: the definitions come from the instance's own
  \<^verbatim>\<open>getToolDefinitions\<close>, whose error propagates; starting from \<^verbatim>\<open>{}\<close>, the loop assigns the
  instance under the name of each definition, in order.
\<close>

definition forEach_assign ::
  "('m, 'r) BasePostmanTool \<Rightarrow> 'm ToolDefinition list \<Rightarrow>
   ('m, 'r) BasePostmanTool ToolMapping \<Rightarrow> ('m, 'r) BasePostmanTool ToolMapping" where
  "forEach_assign this toolDefinitions mappings =
     fold (\<lambda>tool m. set_property (name tool) this m) toolDefinitions mappings"

definition getToolMappings ::
  "('m, 'r) BasePostmanTool \<Rightarrow> thrown + ('m, 'r) BasePostmanTool ToolMapping" where
  "getToolMappings this =
     (case getToolDefinitions this of
        Inl e \<Rightarrow> Inl e
      | Inr toolDefinitions \<Rightarrow>
          Inr (forEach_assign this toolDefinitions
                 \<lparr>own_properties = Map.empty, prototype = None\<rparr>))"

text \<open>
  \<^verbatim>\<open>canHandleResource\<close>: an async function, so a call returns a promise. The \<^verbatim>\<open>try\<close>
  block catches what the hook throws and what the awaited promise rejects with; while the
  awaited promise is pending, so is the result.
\<close>

definition canHandleResource :: "('m, 'r) BasePostmanTool \<Rightarrow> string \<Rightarrow> thrown + bool Promise" where
  "canHandleResource this resourceUri =
     Inr (case getToolResourceDetails this resourceUri of
            Inl e \<Rightarrow> Fulfilled False
          | Inr (Fulfilled d) \<Rightarrow> Fulfilled True
          | Inr (Rejected e) \<Rightarrow> Fulfilled False
          | Inr Pending \<Rightarrow> Pending)"

section \<open>Properties\<close>

subsection \<open>Statuses mapped to invalid-request\<close>

lemma map_status_invalid:
  assumes "status r \<in> {400, 401, 403, 404, 422, 429}"
  shows "map_status r =
     McpError InvalidRequest
       (if status r = 400 \<or> status r = 422 then
          (if truthy (data_error_message r) then data_error_message r
           else JStr ''Invalid request parameters'')
        else if status r = 401 then JStr ''Unauthorized: Invalid or missing API key''
        else if status r = 403 then
          JStr ''Forbidden: Insufficient permissions or feature unavailable''
        else if status r = 404 then JStr ''Resource not found''
        else JStr ''Rate limit exceeded'')"
  using assms by (auto simp: map_status_def js_or_def)

lemma map_status_other:
  assumes "status r \<notin> {400, 401, 403, 404, 422, 429}"
  shows "map_status r =
     McpError InternalError
       (if truthy (data_error_message r) then data_error_message r
        else JStr ''Internal server error'')"
  using assms by (simp add: map_status_def js_or_def)

lemma onRejected_with_response:
  "response err = Some r \<Longrightarrow> snd (response_onRejected err) = Inl (map_status r)"
  by (simp add: response_onRejected_def)

text \<open>
  C1, the claim as stated, fails on a body whose nested error message is present and
  empty: with status 400 and the body \<^verbatim>\<open>{"error": {"message": ""}}\<close> the field is there (it
  is the empty string, not \<^verbatim>\<open>undefined\<close>), and the message thrown is the fallback, not the
  field.
\<close>

theorem empty_message_400_counterexample:
  "data_error_message
     \<lparr>status = 400, data = JObj [(''error'', JObj [(''message'', JStr '''')])]\<rparr> = JStr ''''
   \<and> snd (response_onRejected
       \<lparr>code = Some ''ERR_BAD_REQUEST'',
        message = ''Request failed with status code 400'',
        request = Some ClientRequest,
        response =
          Some \<lparr>status = 400, data = JObj [(''error'', JObj [(''message'', JStr '''')])]\<rparr>\<rparr>)
     = Inl (McpError InvalidRequest (JStr ''Invalid request parameters''))
   \<and> JStr ''Invalid request parameters'' \<noteq> JStr ''''"
  by (simp add: response_onRejected_def map_status_def data_error_message_def js_or_def)

text \<open>
  C1, amended. A failure that carries a response whose status is 400, 401, 403, 404, 422 or
  429 makes the handler throw an invalid-request error. For 400 and 422 its message is the
  nested error message of the body when that value is truthy (present and, for a string,
  not empty), and \<^verbatim>\<open>Invalid request parameters\<close> otherwise; for 401, 403, 404 and 429 it is
  the fixed message of that status.
\<close>

theorem invalid_request_statuses:
  assumes "response err = Some r"
    and "status r \<in> {400, 401, 403, 404, 422, 429}"
  shows "snd (response_onRejected err) =
     Inl (McpError InvalidRequest
       (if status r = 400 \<or> status r = 422 then
          (if truthy (data_error_message r) then data_error_message r
           else JStr ''Invalid request parameters'')
        else if status r = 401 then JStr ''Unauthorized: Invalid or missing API key''
        else if status r = 403 then
          JStr ''Forbidden: Insufficient permissions or feature unavailable''
        else if status r = 404 then JStr ''Resource not found''
        else JStr ''Rate limit exceeded''))"
  using assms by (simp only: onRejected_with_response map_status_invalid)

theorem invalid_request_statuses_witness:
  "response
     \<lparr>code = Some ''ERR_BAD_REQUEST'',
      message = ''Request failed with status code 422'',
      request = Some ClientRequest,
      response =
        Some \<lparr>status = 422,
              data = JObj [(''error'', JObj [(''name'', JStr ''paramMissingError''),
                                             (''message'', JStr ''Name is required'')])]\<rparr>\<rparr>
     = Some \<lparr>status = 422,
             data = JObj [(''error'', JObj [(''name'', JStr ''paramMissingError''),
                                            (''message'', JStr ''Name is required'')])]\<rparr>
   \<and> status
       \<lparr>status = 422,
        data = JObj [(''error'', JObj [(''name'', JStr ''paramMissingError''),
                                       (''message'', JStr ''Name is required'')])]\<rparr>
     \<in> {400, 401, 403, 404, 422, 429}
   \<and> snd (response_onRejected
       \<lparr>code = Some ''ERR_BAD_REQUEST'',
        message = ''Request failed with status code 422'',
        request = Some ClientRequest,
        response =
          Some \<lparr>status = 422,
                data = JObj [(''error'', JObj [(''name'', JStr ''paramMissingError''),
                                               (''message'', JStr ''Name is required'')])]\<rparr>\<rparr>)
     = Inl (McpError InvalidRequest (JStr ''Name is required''))"
proof -
  let ?r = "\<lparr>status = 422,
             data = JObj [(''error'', JObj [(''name'', JStr ''paramMissingError''),
                                            (''message'', JStr ''Name is required'')])]\<rparr>"
  let ?e = "\<lparr>code = Some ''ERR_BAD_REQUEST'',
             message = ''Request failed with status code 422'',
             request = Some ClientRequest,
             response = Some ?r\<rparr>"
  have h1: "response ?e = Some ?r" by simp
  have h2: "status ?r \<in> {400, 401, 403, 404, 422, 429}" by simp
  have "data_error_message ?r = JStr ''Name is required''"
    by (simp add: data_error_message_def)
  with invalid_request_statuses [OF h1 h2] h1 h2 show ?thesis by simp
qed

subsection \<open>Everything else is an internal error\<close>

text \<open>
  C2, the claim as stated, fails the same way outside the six statuses: with status 500
  and the body \<^verbatim>\<open>{"error": {"message": ""}}\<close> the field is present and the message thrown
  is \<^verbatim>\<open>Internal server error\<close>.
\<close>

theorem empty_message_500_counterexample:
  "data_error_message
     \<lparr>status = 500, data = JObj [(''error'', JObj [(''message'', JStr '''')])]\<rparr> = JStr ''''
   \<and> snd (response_onRejected
       \<lparr>code = Some ''ERR_BAD_RESPONSE'',
        message = ''Request failed with status code 500'',
        request = Some ClientRequest,
        response =
          Some \<lparr>status = 500, data = JObj [(''error'', JObj [(''message'', JStr '''')])]\<rparr>\<rparr>)
     = Inl (McpError InternalError (JStr ''Internal server error''))
   \<and> JStr ''Internal server error'' \<noteq> JStr ''''"
  by (simp add: response_onRejected_def map_status_def data_error_message_def js_or_def)

text \<open>
  C2, amended. A failure that is not mapped to invalid-request makes the handler throw an
  internal error: with a response whose status is none of the six, the message is the
  nested error message of the body when that value is truthy (present and, for a string,
  not empty), and \<^verbatim>\<open>Internal server error\<close> otherwise; with a request and no response, the
  fixed \<^verbatim>\<open>No response received from Postman API\<close>; with neither, \<^verbatim>\<open>Error making request: \<close>
  followed by the failure's own message.
\<close>

theorem internal_error_cases:
  "(\<forall>r. response err = Some r \<and> status r \<notin> {400, 401, 403, 404, 422, 429} \<longrightarrow>
      snd (response_onRejected err) =
        Inl (McpError InternalError
          (if truthy (data_error_message r) then data_error_message r
           else JStr ''Internal server error'')))
   \<and> (\<forall>q. response err = None \<and> request err = Some q \<longrightarrow>
      snd (response_onRejected err) =
        Inl (McpError InternalError (JStr ''No response received from Postman API'')))
   \<and> (response err = None \<and> request err = None \<longrightarrow>
      snd (response_onRejected err) =
        Inl (McpError InternalError (JStr (''Error making request: '' @ message err))))"
proof (intro conjI allI impI)
  fix r
  assume "response err = Some r \<and> status r \<notin> {400, 401, 403, 404, 422, 429}"
  then have "response err = Some r" and "status r \<notin> {400, 401, 403, 404, 422, 429}"
    by blast+
  then show "snd (response_onRejected err) =
      Inl (McpError InternalError
        (if truthy (data_error_message r) then data_error_message r
         else JStr ''Internal server error''))"
    using onRejected_with_response [of err r] map_status_other [of r] by simp
next
  fix q
  assume "response err = None \<and> request err = Some q"
  then show "snd (response_onRejected err) =
      Inl (McpError InternalError (JStr ''No response received from Postman API''))"
    by (simp add: response_onRejected_def)
next
  assume "response err = None \<and> request err = None"
  then show "snd (response_onRejected err) =
      Inl (McpError InternalError (JStr (''Error making request: '' @ message err)))"
    by (simp add: response_onRejected_def)
qed

theorem internal_error_cases_witness:
  "snd (response_onRejected
     \<lparr>code = Some ''ERR_BAD_RESPONSE'',
      message = ''Request failed with status code 503'',
      request = Some ClientRequest,
      response =
        Some \<lparr>status = 503,
              data = JObj [(''error'', JObj [(''message'', JStr ''Service unavailable'')])]\<rparr>\<rparr>)
     = Inl (McpError InternalError (JStr ''Service unavailable''))
   \<and> snd (response_onRejected
       \<lparr>code = Some ''ECONNABORTED'',
        message = ''timeout of 30000ms exceeded'',
        request = Some ClientRequest,
        response = None\<rparr>)
     = Inl (McpError InternalError (JStr ''No response received from Postman API''))
   \<and> snd (response_onRejected
       \<lparr>code = None,
        message = ''Invalid URL'',
        request = None,
        response = None\<rparr>)
     = Inl (McpError InternalError (JStr ''Error making request: Invalid URL''))"
proof -
  let ?r = "\<lparr>status = 503,
             data = JObj [(''error'', JObj [(''message'', JStr ''Service unavailable'')])]\<rparr>"
  let ?e1 = "\<lparr>code = Some ''ERR_BAD_RESPONSE'',
              message = ''Request failed with status code 503'',
              request = Some ClientRequest,
              response = Some ?r\<rparr>"
  let ?e2 = "\<lparr>code = Some ''ECONNABORTED'',
              message = ''timeout of 30000ms exceeded'',
              request = Some ClientRequest,
              response = (None :: AxiosResponse option)\<rparr>"
  let ?e3 = "\<lparr>code = (None :: string option),
              message = ''Invalid URL'',
              request = (None :: ClientRequest option),
              response = (None :: AxiosResponse option)\<rparr>"
  have m: "data_error_message ?r = JStr ''Service unavailable''"
    by (simp add: data_error_message_def)
  have a: "response ?e1 = Some ?r \<and> status ?r \<notin> {400, 401, 403, 404, 422, 429}" by simp
  have b: "response ?e2 = None \<and> request ?e2 = Some ClientRequest" by simp
  have c: "response ?e3 = None \<and> request ?e3 = None" by simp
  from internal_error_cases [of ?e1] a
  have "snd (response_onRejected ?e1) =
      Inl (McpError InternalError
        (if truthy (data_error_message ?r) then data_error_message ?r
         else JStr ''Internal server error''))"
    by blast
  with m have 1: "snd (response_onRejected ?e1) =
      Inl (McpError InternalError (JStr ''Service unavailable''))"
    by simp
  from internal_error_cases [of ?e2] b
  have 2: "snd (response_onRejected ?e2) =
      Inl (McpError InternalError (JStr ''No response received from Postman API''))"
    by blast
  from internal_error_cases [of ?e3] c
  have "snd (response_onRejected ?e3) =
      Inl (McpError InternalError (JStr (''Error making request: '' @ message ?e3)))"
    by blast
  then have 3: "snd (response_onRejected ?e3) =
      Inl (McpError InternalError (JStr ''Error making request: Invalid URL''))"
    by simp
  from 1 2 3 show ?thesis by blast
qed

subsection \<open>Construction\<close>

lemma register_hooks_length: "length (register_hooks options c store) = length store"
  by (simp add: register_hooks_def request_use_def response_use_def Let_def
      split: option.split)

lemma register_hooks_other:
  "i \<noteq> c \<Longrightarrow> register_hooks options c store ! i = store ! i"
  by (simp add: register_hooks_def request_use_def response_use_def Let_def
      split: option.split)

lemma register_hooks_client:
  assumes "c < length store"
  shows "register_hooks options c store ! c =
     (store ! c)
       \<lparr>request_interceptors :=
          request_interceptors (store ! c) @
            request_logging #
            (case acceptHeader options of
               Some a \<Rightarrow> if a = [] then [] else [request_accept a]
             | None \<Rightarrow> []),
        response_interceptors :=
          response_interceptors (store ! c) @ [(response_onFulfilled, response_onRejected)]\<rparr>"
  using assms
  by (simp add: register_hooks_def request_use_def response_use_def Let_def
      split: option.split)

lemma new_with_existing:
  "new_BasePostmanTool store apiKey options (Some c) =
     (register_hooks options c store,
      Inr \<lparr>client = c,
           getToolDefinitions = base_getToolDefinitions,
           listToolResources = base_listToolResources,
           getToolResourceDetails = base_getToolResourceDetails\<rparr>)"
  by (simp add: new_BasePostmanTool_def provision_client_def)

lemma new_with_key:
  assumes "k \<noteq> []"
  shows "new_BasePostmanTool store (Some k) options None =
     (register_hooks options (length store)
        (store @ [\<lparr>defaults = new_client_config k (resolve_baseURL options),
                   request_interceptors = [],
                   response_interceptors = []\<rparr>]),
      Inr \<lparr>client = length store,
           getToolDefinitions = base_getToolDefinitions,
           listToolResources = base_listToolResources,
           getToolResourceDetails = base_getToolResourceDetails\<rparr>)"
  using assms by (simp add: new_BasePostmanTool_def provision_client_def axios_create_def)

lemma new_without_key:
  "new_BasePostmanTool store None options None =
     (store, Inl (Error ''API key is required when not providing an existing client''))"
  by (simp add: new_BasePostmanTool_def provision_client_def)

lemma new_with_empty_key:
  "new_BasePostmanTool store (Some []) options None =
     (store, Inl (Error ''API key is required when not providing an existing client''))"
  by (simp add: new_BasePostmanTool_def provision_client_def)

text \<open>
  C3, the claim as stated, fails when the options carry an accept header: the handler that
  overwrites \<^verbatim>\<open>Accept\<close> is registered on the supplied client as on a new one. Here the
  supplied client has no handler and a request configuration with
  \<^verbatim>\<open>Accept: application/json\<close> goes out unchanged before the construction; after it, the
  same configuration goes out through the same client with \<^verbatim>\<open>Accept: application/xml\<close>.
\<close>

theorem existing_client_accept_counterexample:
  "headers
     (snd (run_request_hooks
        (request_interceptors
           \<lparr>defaults =
              \<lparr>url = None, AxiosRequestConfig.baseURL = Some ''https://proxy.example'',
               headers = [''Accept'' \<mapsto> ''application/json''],
               timeout = None, httpsAgent = None\<rparr>,
            request_interceptors = [], response_interceptors = []\<rparr>)
        \<lparr>url = Some ''/collections'',
         AxiosRequestConfig.baseURL = Some ''https://proxy.example'',
         headers = [''Accept'' \<mapsto> ''application/json''],
         timeout = None, httpsAgent = None\<rparr>))
     ''Accept'' = Some ''application/json''
   \<and> headers
     (snd (run_request_hooks
        (request_interceptors
           (fst (new_BasePostmanTool
                  [\<lparr>defaults =
                      \<lparr>url = None,
                       AxiosRequestConfig.baseURL = Some ''https://proxy.example'',
                       headers = [''Accept'' \<mapsto> ''application/json''],
                       timeout = None, httpsAgent = None\<rparr>,
                    request_interceptors = [], response_interceptors = []\<rparr>]
                  None
                  \<lparr>PostmanToolOptions.baseURL = None,
                   acceptHeader = Some ''application/xml''\<rparr>
                  (Some 0)
                :: AxiosInstance list \<times> (thrown + (unit, unit) BasePostmanTool)) ! 0))
        \<lparr>url = Some ''/collections'',
         AxiosRequestConfig.baseURL = Some ''https://proxy.example'',
         headers = [''Accept'' \<mapsto> ''application/json''],
         timeout = None, httpsAgent = None\<rparr>))
     ''Accept'' = Some ''application/xml''"
  by (simp add: new_BasePostmanTool_def provision_client_def register_hooks_def
      request_use_def response_use_def request_logging_def request_accept_def)

text \<open>
  C3, amended. When a client is supplied, it is this instance's client whatever the API key
  and the options are: no client is created, every other client is left as it was, and
  the supplied client keeps its configuration (base URL, default headers, timeout, agent);
  the base URL option and the API key are not used. What this layer does add to the
  supplied client are its handlers, after those already registered: the logging request
  handler, the request handler that overwrites the \<^verbatim>\<open>Accept\<close> header of every outgoing
  request when the options carry a non-empty accept header, and the response handler.
\<close>

theorem existing_client_reused:
  assumes "c < length store"
  shows "snd (new_BasePostmanTool store apiKey options (Some c)) =
       Inr \<lparr>client = c,
            getToolDefinitions = base_getToolDefinitions,
            listToolResources = base_listToolResources,
            getToolResourceDetails = base_getToolResourceDetails\<rparr>
     \<and> length (fst (new_BasePostmanTool store apiKey options (Some c))) = length store
     \<and> (\<forall>i. i \<noteq> c \<longrightarrow>
           fst (new_BasePostmanTool store apiKey options (Some c)) ! i = store ! i)
     \<and> defaults (fst (new_BasePostmanTool store apiKey options (Some c)) ! c) =
         defaults (store ! c)
     \<and> request_interceptors (fst (new_BasePostmanTool store apiKey options (Some c)) ! c) =
         request_interceptors (store ! c) @
           request_logging #
           (case acceptHeader options of
              Some a \<Rightarrow> if a = [] then [] else [request_accept a]
            | None \<Rightarrow> [])
     \<and> response_interceptors (fst (new_BasePostmanTool store apiKey options (Some c)) ! c) =
         response_interceptors (store ! c) @ [(response_onFulfilled, response_onRejected)]"
  using assms
  by (simp add: new_with_existing register_hooks_length register_hooks_other
      register_hooks_client)

theorem existing_client_reused_witness:
  "(0::nat) < length
     [\<lparr>defaults =
         \<lparr>url = None, AxiosRequestConfig.baseURL = Some ''https://proxy.example'',
          headers = [''Accept'' \<mapsto> ''application/json''],
          timeout = Some 1000, httpsAgent = None\<rparr>,
       request_interceptors = [], response_interceptors = []\<rparr>]
   \<and> snd (new_BasePostmanTool
       [\<lparr>defaults =
           \<lparr>url = None, AxiosRequestConfig.baseURL = Some ''https://proxy.example'',
            headers = [''Accept'' \<mapsto> ''application/json''],
            timeout = Some 1000, httpsAgent = None\<rparr>,
         request_interceptors = [], response_interceptors = []\<rparr>]
       (Some ''PMAK-1'')
       \<lparr>PostmanToolOptions.baseURL = Some ''https://other.example'',
        acceptHeader = Some ''application/xml''\<rparr>
       (Some 0))
     = Inr (\<lparr>client = 0,
             getToolDefinitions = base_getToolDefinitions,
             listToolResources = base_listToolResources,
             getToolResourceDetails = base_getToolResourceDetails\<rparr>
            :: (unit, unit) BasePostmanTool)
   \<and> defaults
       (fst (new_BasePostmanTool
          [\<lparr>defaults =
              \<lparr>url = None, AxiosRequestConfig.baseURL = Some ''https://proxy.example'',
               headers = [''Accept'' \<mapsto> ''application/json''],
               timeout = Some 1000, httpsAgent = None\<rparr>,
            request_interceptors = [], response_interceptors = []\<rparr>]
          (Some ''PMAK-1'')
          \<lparr>PostmanToolOptions.baseURL = Some ''https://other.example'',
           acceptHeader = Some ''application/xml''\<rparr>
          (Some 0)
        :: AxiosInstance list \<times> (thrown + (unit, unit) BasePostmanTool)) ! 0)
     = \<lparr>url = None, AxiosRequestConfig.baseURL = Some ''https://proxy.example'',
        headers = [''Accept'' \<mapsto> ''application/json''],
        timeout = Some 1000, httpsAgent = None\<rparr>
   \<and> request_interceptors
       (fst (new_BasePostmanTool
          [\<lparr>defaults =
              \<lparr>url = None, AxiosRequestConfig.baseURL = Some ''https://proxy.example'',
               headers = [''Accept'' \<mapsto> ''application/json''],
               timeout = Some 1000, httpsAgent = None\<rparr>,
            request_interceptors = [], response_interceptors = []\<rparr>]
          (Some ''PMAK-1'')
          \<lparr>PostmanToolOptions.baseURL = Some ''https://other.example'',
           acceptHeader = Some ''application/xml''\<rparr>
          (Some 0)
        :: AxiosInstance list \<times> (thrown + (unit, unit) BasePostmanTool)) ! 0)
     = [request_logging, request_accept ''application/xml'']"
proof -
  let ?c0 = "\<lparr>defaults =
               \<lparr>url = None, AxiosRequestConfig.baseURL = Some ''https://proxy.example'',
                headers = [''Accept'' \<mapsto> ''application/json''],
                timeout = Some 1000, httpsAgent = None\<rparr>,
             request_interceptors = [], response_interceptors = []\<rparr>"
  let ?opts = "\<lparr>PostmanToolOptions.baseURL = Some ''https://other.example'',
               acceptHeader = Some ''application/xml''\<rparr>"
  let ?new = "new_BasePostmanTool [?c0] (Some ''PMAK-1'') ?opts (Some 0)
      :: AxiosInstance list \<times> (thrown + (unit, unit) BasePostmanTool)"
  have h: "(0::nat) < length [?c0]" by simp
  note r = existing_client_reused [OF h, of "Some ''PMAK-1''" ?opts]
  have 1: "snd ?new =
      Inr \<lparr>client = 0,
           getToolDefinitions = base_getToolDefinitions,
           listToolResources = base_listToolResources,
           getToolResourceDetails = base_getToolResourceDetails\<rparr>"
    by (rule r [THEN conjunct1])
  have "defaults (fst ?new ! 0) = defaults ([?c0] ! 0)"
    by (rule r [THEN conjunct2, THEN conjunct2, THEN conjunct2, THEN conjunct1])
  then have 2: "defaults (fst ?new ! 0) = defaults ?c0"
    by simp
  have "request_interceptors (fst ?new ! 0) =
      request_interceptors ([?c0] ! 0) @
        request_logging #
        (case acceptHeader ?opts of
           Some a \<Rightarrow> if a = [] then [] else [request_accept a]
         | None \<Rightarrow> [])"
    by (rule r [THEN conjunct2, THEN conjunct2, THEN conjunct2, THEN conjunct2,
          THEN conjunct1])
  then have 3: "request_interceptors (fst ?new ! 0) =
      [request_logging, request_accept ''application/xml'']"
    by simp
  from h 1 2 3 show ?thesis by simp
qed

lemma resolve_baseURL_cases:
  "resolve_baseURL options =
     (case PostmanToolOptions.baseURL options of
        Some u \<Rightarrow> if u = [] then ''https://api.getpostman.com'' else u
      | None \<Rightarrow> ''https://api.getpostman.com'')"
  by (simp add: resolve_baseURL_def split: option.split)

lemma register_hooks_new_client:
  "register_hooks options (length store)
     (store @ [\<lparr>defaults = config, request_interceptors = [], response_interceptors = []\<rparr>]) =
   store @
     [\<lparr>defaults = config,
       request_interceptors =
         request_logging #
         (case acceptHeader options of
            Some a \<Rightarrow> if a = [] then [] else [request_accept a]
          | None \<Rightarrow> []),
       response_interceptors = [(response_onFulfilled, response_onRejected)]\<rparr>]"
  by (simp add: register_hooks_def request_use_def response_use_def Let_def
      split: option.split)

lemma map_status_kind:
  "map_status r = McpError InvalidRequest (js_or (data_error_message r) (JStr ''Invalid request parameters''))
   \<or> map_status r = McpError InvalidRequest (JStr ''Unauthorized: Invalid or missing API key'')
   \<or> map_status r = McpError InvalidRequest
         (JStr ''Forbidden: Insufficient permissions or feature unavailable'')
   \<or> map_status r = McpError InvalidRequest (JStr ''Resource not found'')
   \<or> map_status r = McpError InvalidRequest (JStr ''Rate limit exceeded'')
   \<or> map_status r = McpError InternalError (js_or (data_error_message r) (JStr ''Internal server error''))"
  by (simp add: map_status_def)

lemma onRejected_throws:
  "\<exists>m. snd (response_onRejected err) = Inl (McpError InvalidRequest m)
     \<or> snd (response_onRejected err) = Inl (McpError InternalError m)"
proof (cases "response err")
  case None
  then show ?thesis
    by (cases "request err") (simp_all add: response_onRejected_def)
next
  case (Some r)
  then have "snd (response_onRejected err) = Inl (map_status r)"
    by (rule onRejected_with_response)
  with map_status_kind [of r] show ?thesis
    by auto
qed

lemma onRejected_kind:
  "snd (response_onRejected err) \<noteq> Inl (Error s)"
  "snd (response_onRejected err) \<noteq> Inl (AxiosFailure e)"
  "snd (response_onRejected err) \<noteq> Inl (Thrown v)"
  "snd (response_onRejected err) \<noteq> Inr x"
  using onRejected_throws [of err] by auto

text \<open>
  C4. Without a supplied client and without an API key the constructor throws, itself and
  at once: the store of clients is as it was, so no client was created, and what is thrown
  is the plain error of the constructor, which the response handler never produces.
\<close>

theorem missing_key_fails:
  "new_BasePostmanTool store None options None =
     (store, Inl (Error ''API key is required when not providing an existing client''))
   \<and> (\<forall>err. snd (response_onRejected err) \<noteq>
         Inl (Error ''API key is required when not providing an existing client''))"
  by (simp add: new_without_key onRejected_kind)

text \<open>
  C9, the claim as stated, fails for a base URL option that is given and empty: the new
  client gets the fixed origin, not the option.
\<close>

theorem empty_baseURL_counterexample:
  "AxiosRequestConfig.baseURL
     (defaults
        (fst (new_BasePostmanTool []
                (Some ''PMAK-1'')
                \<lparr>PostmanToolOptions.baseURL = Some '''', acceptHeader = None\<rparr>
                None
              :: AxiosInstance list \<times> (thrown + (unit, unit) BasePostmanTool)) ! 0))
   = Some ''https://api.getpostman.com''
   \<and> Some ''https://api.getpostman.com'' \<noteq> Some ''''"
  by (simp add: new_BasePostmanTool_def provision_client_def axios_create_def
      new_client_config_def resolve_baseURL_def register_hooks_def request_use_def
      response_use_def)

text \<open>
  C9, amended. With a non-empty API key and no supplied client, the constructor creates one
  client, which becomes the instance's client. Its configuration has: the base URL of the
  options when that is given and not empty, and \<^verbatim>\<open>https://api.getpostman.com\<close> otherwise;
  the header \<^verbatim>\<open>X-Api-Key\<close> with the API key; the header \<^verbatim>\<open>Content-Type: application/json\<close>;
  a timeout of 30000 milliseconds; an agent that does not reject unauthorized certificates.
  The client carries this layer's handlers and no other.
\<close>

theorem new_client_configuration:
  assumes "k \<noteq> []"
  shows "new_BasePostmanTool store (Some k) options None =
     (store @
        [\<lparr>defaults =
            \<lparr>url = None,
             AxiosRequestConfig.baseURL =
               Some (case PostmanToolOptions.baseURL options of
                       Some u \<Rightarrow> if u = [] then ''https://api.getpostman.com'' else u
                     | None \<Rightarrow> ''https://api.getpostman.com''),
             headers = [''X-Api-Key'' \<mapsto> k, ''Content-Type'' \<mapsto> ''application/json''],
             timeout = Some 30000,
             httpsAgent = Some \<lparr>rejectUnauthorized = False\<rparr>\<rparr>,
          request_interceptors =
            request_logging #
            (case acceptHeader options of
               Some a \<Rightarrow> if a = [] then [] else [request_accept a]
             | None \<Rightarrow> []),
          response_interceptors = [(response_onFulfilled, response_onRejected)]\<rparr>],
      Inr \<lparr>client = length store,
           getToolDefinitions = base_getToolDefinitions,
           listToolResources = base_listToolResources,
           getToolResourceDetails = base_getToolResourceDetails\<rparr>)"
  using assms
  by (simp add: new_with_key register_hooks_new_client new_client_config_def
      resolve_baseURL_cases)

theorem new_client_configuration_witness:
  "''PMAK-1'' \<noteq> []
   \<and> (new_BasePostmanTool []
        (Some ''PMAK-1'')
        \<lparr>PostmanToolOptions.baseURL = Some ''https://proxy.example'', acceptHeader = None\<rparr>
        None
      :: AxiosInstance list \<times> (thrown + (unit, unit) BasePostmanTool)) =
     ([\<lparr>defaults =
          \<lparr>url = None,
           AxiosRequestConfig.baseURL = Some ''https://proxy.example'',
           headers = [''X-Api-Key'' \<mapsto> ''PMAK-1'', ''Content-Type'' \<mapsto> ''application/json''],
           timeout = Some 30000,
           httpsAgent = Some \<lparr>rejectUnauthorized = False\<rparr>\<rparr>,
        request_interceptors = [request_logging],
        response_interceptors = [(response_onFulfilled, response_onRejected)]\<rparr>],
      Inr \<lparr>client = 0,
           getToolDefinitions = base_getToolDefinitions,
           listToolResources = base_listToolResources,
           getToolResourceDetails = base_getToolResourceDetails\<rparr>)"
proof -
  have h: "''PMAK-1'' \<noteq> []" by simp
  from new_client_configuration [OF h, of "[]"
      "\<lparr>PostmanToolOptions.baseURL = Some ''https://proxy.example'', acceptHeader = None\<rparr>"] h
  show ?thesis by simp
qed

text \<open>
  C10. The empty string is a missing API key: constructing with it and without a client
  gives what constructing with no key gives, the constructor's error and an unchanged
  store. Likewise an empty base URL option is a missing one: the construction is the same
  with either, and the client created for a key gets the fixed origin.
\<close>

theorem empty_strings_are_missing:
  "new_BasePostmanTool store (Some '''') options None =
     new_BasePostmanTool store None options None
   \<and> new_BasePostmanTool store (Some '''') options None =
     (store, Inl (Error ''API key is required when not providing an existing client''))
   \<and> new_BasePostmanTool store apiKey
       (options\<lparr>PostmanToolOptions.baseURL := Some ''''\<rparr>) existingClient =
     new_BasePostmanTool store apiKey
       (options\<lparr>PostmanToolOptions.baseURL := None\<rparr>) existingClient
   \<and> AxiosRequestConfig.baseURL
       (defaults
          (fst (new_BasePostmanTool store (Some (c # cs))
                  (options\<lparr>PostmanToolOptions.baseURL := Some ''''\<rparr>) None)
           ! length store)) =
     Some ''https://api.getpostman.com''"
proof (intro conjI)
  show "new_BasePostmanTool store (Some '''') options None =
      new_BasePostmanTool store None options None"
    by (simp only: new_with_empty_key new_without_key)
  show "new_BasePostmanTool store (Some '''') options None =
      (store, Inl (Error ''API key is required when not providing an existing client''))"
    by (rule new_with_empty_key)
  show "new_BasePostmanTool store apiKey
        (options\<lparr>PostmanToolOptions.baseURL := Some ''''\<rparr>) existingClient =
      new_BasePostmanTool store apiKey
        (options\<lparr>PostmanToolOptions.baseURL := None\<rparr>) existingClient"
    by (simp add: new_BasePostmanTool_def provision_client_def resolve_baseURL_def
        register_hooks_def split: option.split)
  have "c # cs \<noteq> []" by simp
  then show "AxiosRequestConfig.baseURL
       (defaults
          (fst (new_BasePostmanTool store (Some (c # cs))
                  (options\<lparr>PostmanToolOptions.baseURL := Some ''''\<rparr>) None)
           ! length store)) =
     Some ''https://api.getpostman.com''"
    by (simp add: new_with_key register_hooks_new_client new_client_config_def
        resolve_baseURL_def)
qed

subsection \<open>Error kinds\<close>

text \<open>
  C5, the claim as stated, fails for the unimplemented hook: on an instance of the base
  class \<^verbatim>\<open>getToolMappings\<close> surfaces the plain error of \<^verbatim>\<open>getToolDefinitions\<close>, which
  carries no framework kind.
\<close>

theorem unimplemented_hook_counterexample:
  "getToolMappings
     (\<lparr>client = 0,
       getToolDefinitions = base_getToolDefinitions,
       listToolResources = base_listToolResources,
       getToolResourceDetails = base_getToolResourceDetails\<rparr>
      :: (unit, unit) BasePostmanTool)
   = Inl (Error ''getToolDefinitions() must be implemented by derived class'')
   \<and> kind_of (Error ''getToolDefinitions() must be implemented by derived class'') = None"
  by (simp add: getToolMappings_def base_getToolDefinitions_def)

text \<open>
  C5, amended. Every error the response handler throws, and the error of the default
  \<^verbatim>\<open>getToolResourceDetails\<close>, carries one of the two framework kinds, invalid-request or
  internal-error. On the failure path the handler never returns a value and never throws
  the failure it was given; a successful response passes through unchanged. The two
  other errors of this unit, that of the unimplemented \<^verbatim>\<open>getToolDefinitions\<close> and that of
  a construction without key and client, are plain errors that carry no framework kind.
\<close>

theorem error_kinds:
  "(\<exists>m. snd (response_onRejected err) = Inl (McpError InvalidRequest m)
       \<or> snd (response_onRejected err) = Inl (McpError InternalError m))
   \<and> (\<forall>x. snd (response_onRejected err) \<noteq> Inr x)
   \<and> snd (response_onRejected err) \<noteq> Inl (AxiosFailure err)
   \<and> response_onFulfilled r = r
   \<and> (\<exists>m. base_getToolResourceDetails uri = Inr (Rejected (McpError InvalidRequest m)))
   \<and> (\<exists>s. base_getToolDefinitions = Inl (Error s))
   \<and> (\<exists>s. snd (new_BasePostmanTool store None options None) = Inl (Error s))"
proof (intro conjI)
  show "\<exists>m. snd (response_onRejected err) = Inl (McpError InvalidRequest m)
      \<or> snd (response_onRejected err) = Inl (McpError InternalError m)"
    by (rule onRejected_throws)
  show "\<forall>x. snd (response_onRejected err) \<noteq> Inr x"
    by (simp add: onRejected_kind)
  show "snd (response_onRejected err) \<noteq> Inl (AxiosFailure err)"
    by (rule onRejected_kind)
  show "response_onFulfilled r = r"
    by (simp add: response_onFulfilled_def)
  show "\<exists>m. base_getToolResourceDetails uri = Inr (Rejected (McpError InvalidRequest m))"
    by (simp add: base_getToolResourceDetails_def)
  show "\<exists>s. base_getToolDefinitions = Inl (Error s)"
    by (simp add: base_getToolDefinitions_def)
  show "\<exists>s. snd (new_BasePostmanTool store None options None) = Inl (Error s)"
    by (simp add: new_without_key)
qed

subsection \<open>Tool mappings\<close>

lemma forEach_assign_result:
  "forEach_assign this defs m =
     \<lparr>own_properties =
        (\<lambda>n. if n \<in> name ` set defs \<and> n \<noteq> ''__proto__'' then Some this
             else own_properties m n),
      prototype =
        (if ''__proto__'' \<in> name ` set defs then Some this else prototype m)\<rparr>"
proof (induction defs arbitrary: m)
  case Nil
  show ?case by (simp add: forEach_assign_def)
next
  case (Cons d defs)
  have step: "forEach_assign this (d # defs) m =
      forEach_assign this defs (set_property (name d) this m)"
    by (simp add: forEach_assign_def)
  show ?case
  proof (cases "name d = ''__proto__''")
    case True
    then show ?thesis
      by (simp only: step Cons.IH) (auto simp: set_property_def)
  next
    case False
    then show ?thesis
      by (simp only: step Cons.IH) (auto simp: set_property_def)
  qed
qed

lemma getToolMappings_result:
  assumes "getToolDefinitions this = Inr defs"
  shows "getToolMappings this =
     Inr \<lparr>own_properties =
            (\<lambda>n. if n \<in> name ` set defs \<and> n \<noteq> ''__proto__'' then Some this else None),
          prototype = (if ''__proto__'' \<in> name ` set defs then Some this else None)\<rparr>"
  using assms by (simp add: getToolMappings_def forEach_assign_result cong: if_cong)


subsection \<open>Resource hooks\<close>

text \<open>
  C7. For every URI, \<^verbatim>\<open>canHandleResource\<close> yields true when the instance's
  \<^verbatim>\<open>getToolResourceDetails\<close> succeeds on it, and false when that call fails, whether it
  throws or its promise rejects and whatever the error is; \<^verbatim>\<open>canHandleResource\<close> itself
  neither throws nor rejects.
\<close>

theorem can_handle_resource:
  "(\<forall>d. getToolResourceDetails this uri = Inr (Fulfilled d) \<longrightarrow>
      canHandleResource this uri = Inr (Fulfilled True))
   \<and> (\<forall>e. getToolResourceDetails this uri = Inl e
          \<or> getToolResourceDetails this uri = Inr (Rejected e) \<longrightarrow>
      canHandleResource this uri = Inr (Fulfilled False))
   \<and> (\<forall>e. canHandleResource this uri \<noteq> Inl e
          \<and> canHandleResource this uri \<noteq> Inr (Rejected e))"
  by (auto simp: canHandleResource_def split: sum.splits Promise.splits)

theorem can_handle_resource_witness:
  "canHandleResource
     (\<lparr>client = 0,
       getToolDefinitions = (base_getToolDefinitions :: thrown + unit ToolDefinition list),
       listToolResources = base_listToolResources,
       getToolResourceDetails = (\<lambda>uri. Inr (Fulfilled uri))\<rparr>)
     ''postman://collections/1'' = Inr (Fulfilled True)
   \<and> canHandleResource
     (\<lparr>client = 0,
       getToolDefinitions = (base_getToolDefinitions :: thrown + unit ToolDefinition list),
       listToolResources = base_listToolResources,
       getToolResourceDetails =
         (\<lambda>uri. Inr (Rejected (Thrown (JStr ''socket hang up''))) :: thrown + string Promise)\<rparr>)
     ''postman://collections/1'' = Inr (Fulfilled False)
   \<and> canHandleResource
     (\<lparr>client = 0,
       getToolDefinitions = (base_getToolDefinitions :: thrown + unit ToolDefinition list),
       listToolResources = base_listToolResources,
       getToolResourceDetails =
         (\<lambda>uri. Inl (Error ''not today'') :: thrown + string Promise)\<rparr>)
     ''postman://collections/1'' = Inr (Fulfilled False)"
proof -
  let ?t1 = "\<lparr>client = 0,
       getToolDefinitions = (base_getToolDefinitions :: thrown + unit ToolDefinition list),
       listToolResources = base_listToolResources,
       getToolResourceDetails = (\<lambda>uri. Inr (Fulfilled uri))\<rparr>"
  let ?t2 = "\<lparr>client = 0,
       getToolDefinitions = (base_getToolDefinitions :: thrown + unit ToolDefinition list),
       listToolResources = base_listToolResources,
       getToolResourceDetails =
         (\<lambda>uri. Inr (Rejected (Thrown (JStr ''socket hang up''))) :: thrown + string Promise)\<rparr>"
  let ?t3 = "\<lparr>client = 0,
       getToolDefinitions = (base_getToolDefinitions :: thrown + unit ToolDefinition list),
       listToolResources = base_listToolResources,
       getToolResourceDetails =
         (\<lambda>uri. Inl (Error ''not today'') :: thrown + string Promise)\<rparr>"
  let ?u = "''postman://collections/1''"
  have a: "getToolResourceDetails ?t1 ?u = Inr (Fulfilled ?u)" by simp
  have b: "getToolResourceDetails ?t2 ?u = Inr (Rejected (Thrown (JStr ''socket hang up'')))"
    by simp
  have c: "getToolResourceDetails ?t3 ?u = Inl (Error ''not today'')" by simp
  from can_handle_resource [of ?t1 ?u] a
  have 1: "canHandleResource ?t1 ?u = Inr (Fulfilled True)" by blast
  from can_handle_resource [of ?t2 ?u] b
  have 2: "canHandleResource ?t2 ?u = Inr (Fulfilled False)" by blast
  from can_handle_resource [of ?t3 ?u] c
  have 3: "canHandleResource ?t3 ?u = Inr (Fulfilled False)" by blast
  from 1 2 3 show ?thesis by blast
qed

lemma new_instance_methods:
  assumes "snd (new_BasePostmanTool store apiKey options existingClient) = Inr this"
  shows "getToolDefinitions this = base_getToolDefinitions"
    and "listToolResources this = base_listToolResources"
    and "getToolResourceDetails this = base_getToolResourceDetails"
  using assms
  by (auto simp: new_BasePostmanTool_def split: prod.splits sum.splits)

text \<open>
  C8. On an instance of the base class itself, where no hook is overridden,
  \<^verbatim>\<open>listToolResources\<close> yields the empty sequence, and for every URI
  \<^verbatim>\<open>getToolResourceDetails\<close> fails with an invalid-request error whose message names the
  URI, so that \<^verbatim>\<open>canHandleResource\<close> yields false.
\<close>

theorem default_resource_hooks:
  assumes "snd (new_BasePostmanTool store apiKey options existingClient) = Inr this"
  shows "listToolResources this = Inr (Fulfilled [])
     \<and> getToolResourceDetails this uri =
         Inr (Rejected (McpError InvalidRequest
           (JStr (''Resource '' @ uri @ '' cannot be handled by this tool''))))
     \<and> canHandleResource this uri = Inr (Fulfilled False)"
  using new_instance_methods [OF assms]
  by (simp add: base_listToolResources_def base_getToolResourceDetails_def
      canHandleResource_def)

theorem default_resource_hooks_witness:
  "(let this =
      (\<lparr>client = 0,
        getToolDefinitions = base_getToolDefinitions,
        listToolResources = base_listToolResources,
        getToolResourceDetails = base_getToolResourceDetails\<rparr>
       :: (unit, unit) BasePostmanTool)
    in snd (new_BasePostmanTool []
              (Some ''PMAK-1'')
              \<lparr>PostmanToolOptions.baseURL = None, acceptHeader = None\<rparr>
              None) = Inr this
       \<and> listToolResources this = Inr (Fulfilled [])
       \<and> getToolResourceDetails this ''postman://collections/1'' =
           Inr (Rejected (McpError InvalidRequest
             (JStr ''Resource postman://collections/1 cannot be handled by this tool'')))
       \<and> canHandleResource this ''postman://collections/1'' = Inr (Fulfilled False))"
proof -
  let ?t = "\<lparr>client = 0,
        getToolDefinitions = base_getToolDefinitions,
        listToolResources = base_listToolResources,
        getToolResourceDetails = base_getToolResourceDetails\<rparr>
       :: (unit, unit) BasePostmanTool"
  have h: "snd (new_BasePostmanTool []
              (Some ''PMAK-1'')
              \<lparr>PostmanToolOptions.baseURL = None, acceptHeader = None\<rparr>
              None) = Inr ?t"
    by (simp add: new_with_key)
  from default_resource_hooks [OF h, of "''postman://collections/1''"] h
  show ?thesis
    by (simp add: Let_def)
qed

end
